theory Spec2Isabelle
  imports Main "HOL-Library.Word"
begin

section \<open>Values, truthiness and exceptions\<close>

text \<open>
  The program of \<^verbatim>\<open>backend/mis-api/main.py\<close> moves JSON-shaped Python values around:
  request bodies, rows of the record store, envelopes of the real-time channel. One
  datatype stands for them. \<open>JNull\<close> is Python's \<open>None\<close>, \<open>JObj\<close> a \<open>dict\<close> in
  insertion order (its keys are distinct in any value Python builds), \<open>JArr\<close> a list.
  Numbers are the integers; no function modelled here computes with a float.
\<close>

datatype json =
    JNull
  | JBool bool
  | JNum int
  | JStr string
  | JArr "json list"
  | JObj "(string \<times> json) list"

type_synonym row = "(string \<times> json) list"

text \<open>Python's truth value of an object, as \<open>if x:\<close> and \<open>not x\<close> read it.\<close>

fun truthy :: "json \<Rightarrow> bool" where
  "truthy JNull = False"
| "truthy (JBool b) = b"
| "truthy (JNum n) = (n \<noteq> 0)"
| "truthy (JStr s) = (s \<noteq> [])"
| "truthy (JArr xs) = (xs \<noteq> [])"
| "truthy (JObj kv) = (kv \<noteq> [])"

text \<open>
  What the program raises. \<open>HTTPException\<close> carries the status code and the detail;
  \<open>HTTPError\<close> is \<open>httpx.HTTPError\<close> (the store could not be reached or answered with
  an error status); the others are the Python exceptions of the same name.
\<close>

datatype exn =
    HTTPException int string
  | HTTPError
  | JSONDecodeError
  | AttributeError
  | KeyError
  | ValidationError
  | WebSocketDisconnect
  | ValidatorError

text \<open>\<open>d.get(k, default)\<close>: only a dict has the method.\<close>

fun py_get :: "json \<Rightarrow> string \<Rightarrow> json \<Rightarrow> exn + json" where
  "py_get (JObj kv) k dflt = Inr (case map_of kv k of None \<Rightarrow> dflt | Some v \<Rightarrow> v)"
| "py_get _ k dflt = Inl AttributeError"

section \<open>Rendering integers and random tokens\<close>

text \<open>\<open>str(n)\<close> of a Python integer: decimal digits, a minus sign for a negative one.\<close>

definition digit_char :: "nat \<Rightarrow> char" where
  "digit_char d = ''0123456789'' ! d"

fun str_nat :: "nat \<Rightarrow> string" where
  "str_nat n = (if n < 10 then [digit_char n] else str_nat (n div 10) @ [digit_char (n mod 10)])"

declare str_nat.simps [simp del]

definition str_int :: "int \<Rightarrow> string" where
  "str_int i = (if i < 0 then CHR ''-'' # str_nat (nat (- i)) else str_nat (nat i))"

text \<open>
  \<open>secrets.token_hex(3)\<close> draws three random bytes and writes each as two lower-case
  hexadecimal digits; \<open>.upper()\<close> then maps the letters to upper case.
\<close>

type_synonym byte = "8 word"

type_synonym token = "byte \<times> byte \<times> byte"

definition hex_char :: "nat \<Rightarrow> char" where
  "hex_char d = ''0123456789abcdef'' ! d"

definition hex_byte :: "byte \<Rightarrow> string" where
  "hex_byte b = [hex_char (unat b div 16), hex_char (unat b mod 16)]"

fun token_hex :: "token \<Rightarrow> string" where
  "token_hex (b0, b1, b2) = hex_byte b0 @ hex_byte b1 @ hex_byte b2"

definition upper_char :: "char \<Rightarrow> char" where
  "upper_char c =
     (case map_of (zip ''abcdefghijklmnopqrstuvwxyz'' ''ABCDEFGHIJKLMNOPQRSTUVWXYZ'') c of
        None \<Rightarrow> c
      | Some u \<Rightarrow> u)"

definition upper :: "string \<Rightarrow> string" where
  "upper s = map upper_char s"

section \<open>The record store\<close>

text \<open>
  The store behind \<open>safe_get_from_supabase\<close> and \<open>safe_post_to_supabase\<close> is an
  external service. It is modelled as the specification describes its contract: a
  collection per endpoint, \<open>create\<close> appends the posted record and answers with the
  stored record, \<open>query\<close> answers with the rows that satisfy every equality filter, and
  a request that cannot be served raises. A row holds exactly the fields that were
  posted. \<open>calls\<close> counts the requests made so far and \<open>draws\<close> the random tokens drawn
  so far; both only index the environment below.
\<close>

record world =
  tables :: "string \<Rightarrow> row list"
  calls :: nat
  draws :: nat

text \<open>
  What a run of an endpoint reads from outside the program: whether the \<open>n\<close>-th request
  to the store fails, the \<open>n\<close>-th draw of three random bytes, and the two readings of
  the clock made by \<open>approve_membership\<close>.
\<close>

record env =
  fault :: "nat \<Rightarrow> bool"
  token_bytes :: "nat \<Rightarrow> token"
  utcnow_timestamp :: int
  utcnow_isoformat :: string

text \<open>
  \<open>eq_filter v\<close> is the filter text \<open>f"eq.{v}"\<close>. A filter \<open>field = eq.text\<close>
  compares the text form of the row's field with \<open>text\<close>;
  a row without the field, or with a null or structured value there, does not match.
  \<open>select\<close> chooses columns and filters nothing.
\<close>

definition eq_filter :: "string \<Rightarrow> string" where
  "eq_filter v = ''eq.'' @ v"

fun text_of :: "json \<Rightarrow> string option" where
  "text_of (JStr s) = Some s"
| "text_of (JBool b) = Some (if b then ''true'' else ''false'')"
| "text_of (JNum n) = Some (str_int n)"
| "text_of _ = None"

definition column :: "row \<Rightarrow> string \<Rightarrow> string option" where
  "column r k = (case map_of r k of None \<Rightarrow> None | Some v \<Rightarrow> text_of v)"

definition satisfies :: "row \<Rightarrow> string \<times> string \<Rightarrow> bool" where
  "satisfies r p =
     (if fst p = ''select'' then True
      else case column r (fst p) of None \<Rightarrow> False | Some t \<Rightarrow> snd p = eq_filter t)"

definition matching :: "(string \<times> string) list \<Rightarrow> row list \<Rightarrow> row list" where
  "matching params rows = filter (\<lambda>r. list_all (satisfies r) params) rows"

definition store_error :: exn where
  "store_error = HTTPException 500 ''Supabase error''"

definition safe_get_from_supabase ::
  "env \<Rightarrow> string \<Rightarrow> (string \<times> string) list \<Rightarrow> world \<Rightarrow> (exn + row list) \<times> world" where
  "safe_get_from_supabase e endpoint params w =
     (if fault e (calls w) then (Inl store_error, w\<lparr>calls := Suc (calls w)\<rparr>)
      else (Inr (matching params (tables w endpoint)), w\<lparr>calls := Suc (calls w)\<rparr>))"

definition safe_post_to_supabase ::
  "env \<Rightarrow> string \<Rightarrow> row \<Rightarrow> world \<Rightarrow> (exn + json) \<times> world" where
  "safe_post_to_supabase e endpoint data w =
     (if fault e (calls w) then (Inl store_error, w\<lparr>calls := Suc (calls w)\<rparr>)
      else (Inr (JObj data),
            w\<lparr>tables := (tables w)(endpoint := tables w endpoint @ [data]),
              calls := Suc (calls w)\<rparr>))"

section \<open>Onboarding and approval\<close>

record OnboardingRequest =
  code :: string
  voice_consent :: bool
  responses :: json

definition submit_onboarding ::
  "env \<Rightarrow> OnboardingRequest \<Rightarrow> world \<Rightarrow> (exn + row) \<times> world" where
  "submit_onboarding e request w =
     (case safe_get_from_supabase e ''rest/v1/invitations''
             [(''code'', eq_filter (code request))] w of
        (Inl x, w1) \<Rightarrow> (Inl x, w1)
      | (Inr invitation, w1) \<Rightarrow>
          if invitation = [] then (Inl (HTTPException 404 ''Invitation not found''), w1)
          else
            (case safe_post_to_supabase e ''rest/v1/onboarding''
                    [(''invitation_code'', JStr (code request)),
                     (''voice_consent'', JBool (voice_consent request)),
                     (''responses'', responses request)] w1 of
               (Inl x, w2) \<Rightarrow> (Inl x, w2)
             | (Inr _, w2) \<Rightarrow>
                 (Inr [(''status'', JStr ''submitted''), (''code'', JStr (code request))], w2)))"

text \<open>
  \<open>req_user_name\<close> is the attribute \<open>user_name\<close> of the request object: \<open>None\<close>
  when the object has no such attribute, so that
  \<open>getattr(request, "user_name", default)\<close> takes the default.
\<close>

record ApproveMembershipRequest =
  invitation_code :: string
  req_user_name :: "json option"

record ApproveMembershipResponse =
  success :: bool
  message :: string
  membership_key :: string
  membership_code :: string

definition approve_membership ::
  "env \<Rightarrow> ApproveMembershipRequest \<Rightarrow> world \<Rightarrow> (exn + ApproveMembershipResponse) \<times> world" where
  "approve_membership e request w =
     (case safe_get_from_supabase e ''rest/v1/memberships''
             [(''invitation_code'', eq_filter (invitation_code request)),
              (''active'', ''eq.true'')] w of
        (Inl x, w1) \<Rightarrow> (Inl x, w1)
      | (Inr existing_membership, w1) \<Rightarrow>
          if existing_membership \<noteq> [] then
            (Inl (HTTPException 409 ''Membership already exists for this invitation code.''), w1)
          else
            (case safe_get_from_supabase e ''rest/v1/invitations''
                    [(''code'', eq_filter (invitation_code request)), (''select'', ''*'')] w1 of
               (Inl x, w2) \<Rightarrow> (Inl x, w2)
             | (Inr [], w2) \<Rightarrow> (Inl (HTTPException 404 ''Invitation not found.''), w2)
             | (Inr (inv_row # _), w2) \<Rightarrow>
                 if map_of inv_row ''status'' \<noteq> Some (JStr ''onboarded'') then
                   (Inl (HTTPException 400 ''Invitation not onboarded yet.''), w2)
                 else
                   let name = (case req_user_name request of
                                 Some u \<Rightarrow> u
                               | None \<Rightarrow> (case map_of inv_row ''invited_name'' of
                                             None \<Rightarrow> JStr ''''
                                           | Some v \<Rightarrow> v));
                       m_code = ''MEMBER-'' @ upper (token_hex (token_bytes e (draws w2)));
                       w3 = w2\<lparr>draws := Suc (draws w2)\<rparr>;
                       m_key = m_code @ ''-'' @ str_int (utcnow_timestamp e);
                       payload = [(''invitation_code'', JStr (invitation_code request)),
                                  (''membership_code'', JStr m_code),
                                  (''membership_key'', JStr m_key),
                                  (''issued_to'', name),
                                  (''active'', JBool True),
                                  (''issued_at'', JStr (utcnow_isoformat e))]
                   in (case safe_post_to_supabase e ''rest/v1/memberships'' payload w3 of
                         (Inl x, w4) \<Rightarrow> (Inl x, w4)
                       | (Inr insert_result, w4) \<Rightarrow>
                           if \<not> truthy insert_result then
                             (Inl (HTTPException 500 ''Error saving membership record.''), w4)
                           else
                             (Inr \<lparr>success = True, message = ''Membership approved.'',
                                   membership_key = m_key, membership_code = m_code\<rparr>, w4))))"

section \<open>Key validation over REST\<close>

record ValidateKeyRequest =
  key :: string

definition validate_key ::
  "env \<Rightarrow> ValidateKeyRequest \<Rightarrow> world \<Rightarrow> (exn + row) \<times> world" where
  "validate_key e request w =
     (case safe_get_from_supabase e ''rest/v1/memberships''
             [(''membership_code'', eq_filter (key request)), (''status'', ''eq.active'')] w of
        (Inl x, w1) \<Rightarrow> (Inl x, w1)
      | (Inr results, w1) \<Rightarrow>
          if results = [] then (Inl (HTTPException 404 ''Invalid membership key''), w1)
          else (Inr [(''valid'', JBool True), (''key'', JStr (key request))], w1))"

section \<open>The chat endpoint and its bearer credential\<close>

text \<open>
  Modelled from the spec: \<open>supabase.validate_key\<close> of the module \<open>database\<close> is not
  among the sources. The Credential Validator takes the presented key and answers with
  the bound identity or nothing; its callers read the entries \<open>valid\<close> and
  \<open>user_name\<close> of the answer, and it may raise. It is a parameter of every function
  that calls it, so that nothing is assumed about which keys it accepts.
\<close>

record user_data =
  valid :: bool
  user_name :: string

type_synonym validator = "json \<Rightarrow> exn + user_data option"

text \<open>
  \<open>credentials\<close> is \<open>None\<close> when the request carries no bearer credential
  (\<open>HTTPBearer(auto_error=False)\<close>).
\<close>

definition get_current_user :: "validator \<Rightarrow> string option \<Rightarrow> exn + user_data option" where
  "get_current_user supabase_validate_key credentials =
     (case credentials of
        None \<Rightarrow> Inr None
      | Some k \<Rightarrow>
          (case supabase_validate_key (JStr k) of
             Inl _ \<Rightarrow> Inl (HTTPException 500 ''Supabase validation failed'')
           | Inr None \<Rightarrow> Inr None
           | Inr (Some u) \<Rightarrow> Inr (Some u)))"

record ChatRequest =
  prompt :: string

definition personal_responses :: "string \<Rightarrow> string list" where
  "personal_responses n =
     [''Hello '' @ n @ '', I'' @ [CHR 0x27] @ ''m SpaceWH AI. How can I assist you today?'',
      ''Thanks for your question, '' @ n @ ''. Let me think about it...'',
      ''Based on my knowledge, '' @ n @ '', I would recommend the following approach...'',
      ''I'' @ [CHR 0x27] @ ''d need more information to answer that fully, '' @ n
        @ ''. Can you provide more details?'',
      ''That'' @ [CHR 0x27] @ ''s an interesting query, '' @ n
        @ '', but it'' @ [CHR 0x27] @ ''s beyond my current capabilities.'']"

definition anonymous_responses :: "string list" where
  "anonymous_responses =
     [''I'' @ [CHR 0x27] @ ''m SpaceWH AI. How can I assist you today?'',
      ''That'' @ [CHR 0x27] @ ''s an interesting question. Let me think about it...'',
      ''Based on my knowledge, I would recommend the following approach...'',
      ''I don'' @ [CHR 0x27] @ ''t have enough information to answer that fully. ''
        @ ''Can you provide more details?'',
      ''That'' @ [CHR 0x27] @ ''s beyond my current capabilities, but I''
        @ [CHR 0x27] @ ''m constantly learning.'']"

text \<open>
  \<open>random.choice(responses)\<close> reads one index from the random source; \<open>pick\<close> is that
  reading, taken modulo the length of the list. Nothing in the \<open>try\<close> block can raise
  on the values of this model, so its handler has no branch here. The function returns
  a plain \<open>dict\<close>.
\<close>

definition gpt_chat :: "ChatRequest \<Rightarrow> user_data option \<Rightarrow> nat \<Rightarrow> exn + json" where
  "gpt_chat request ud pick =
     (let rs = (case ud of
                  Some u \<Rightarrow> personal_responses (user_name u)
                | None \<Rightarrow> anonymous_responses)
      in Inr (JObj [(''response'', JStr (rs ! (pick mod length rs)))]))"

text \<open>
  \<open>POST /gpt-chat\<close>: the framework resolves the dependency \<open>get_current_user\<close> and
  passes its result to the handler; an exception raised by the dependency is the
  request's answer.
\<close>

definition post_gpt_chat ::
  "validator \<Rightarrow> string option \<Rightarrow> ChatRequest \<Rightarrow> nat \<Rightarrow> exn + json" where
  "post_gpt_chat supabase_validate_key credentials request pick =
     (case get_current_user supabase_validate_key credentials of
        Inl x \<Rightarrow> Inl x
      | Inr ud \<Rightarrow> gpt_chat request ud pick)"

section \<open>The connection manager\<close>

text \<open>
  A \<open>WebSocket\<close> is known by its handle. \<open>active_connections\<close> is the dict of the
  manager in insertion order. \<open>lock_held\<close> is the state of \<open>self._lock\<close>, an
  \<open>asyncio.Lock\<close>: it is not reentrant, so a task that awaits the lock while holding
  it itself waits for ever. \<open>trace\<close> records what the gateway did: the texts delivered
  to channels, the calls of the Credential Validator and the calls of the chat responder.
  A delivered text is recorded as the JSON value given to \<open>json.dumps\<close>.
\<close>

type_synonym websocket = nat

datatype event =
    Delivered websocket json
  | Validated json
  | Responded string

record gateway =
  active_connections :: "(string \<times> websocket) list"
  lock_held :: bool
  trace :: "event list"

text \<open>
  The result of an operation of the manager: it returns with the new state, or it never
  returns because it awaits a lock that cannot be released (the state is the one at
  that point).
\<close>

datatype 'a run = Returns 'a | Deadlock 'a

fun dict_set :: "'k \<Rightarrow> 'v \<Rightarrow> ('k \<times> 'v) list \<Rightarrow> ('k \<times> 'v) list" where
  "dict_set k v [] = [(k, v)]"
| "dict_set k v (p # ps) = (if fst p = k then (k, v) # ps else p # dict_set k v ps)"

definition dict_del :: "'k \<Rightarrow> ('k \<times> 'v) list \<Rightarrow> ('k \<times> 'v) list" where
  "dict_del k ps = filter (\<lambda>p. fst p \<noteq> k) ps"

definition connect :: "websocket \<Rightarrow> string \<Rightarrow> gateway \<Rightarrow> gateway run" where
  "connect ws client_id g =
     (if lock_held g then Deadlock g
      else Returns (g\<lparr>active_connections := dict_set client_id ws (active_connections g)\<rparr>))"

definition disconnect :: "string \<Rightarrow> gateway \<Rightarrow> gateway run" where
  "disconnect client_id g =
     (if lock_held g then Deadlock g
      else Returns (g\<lparr>active_connections := dict_del client_id (active_connections g)\<rparr>))"

text \<open>\<open>broken ws\<close> says that \<open>send_text\<close> on the channel \<open>ws\<close> raises.\<close>

definition send_personal_message ::
  "(websocket \<Rightarrow> bool) \<Rightarrow> json \<Rightarrow> string \<Rightarrow> gateway \<Rightarrow> gateway run" where
  "send_personal_message broken msg client_id g =
     (case map_of (active_connections g) client_id of
        None \<Rightarrow> Returns g
      | Some ws \<Rightarrow>
          if broken ws then disconnect client_id g
          else Returns (g\<lparr>trace := trace g @ [Delivered ws msg]\<rparr>))"

text \<open>
  The loop of \<open>broadcast\<close> over the snapshot \<open>list(self.active_connections.items())\<close>,
  run while the lock is held.
\<close>

fun broadcast_loop ::
  "(websocket \<Rightarrow> bool) \<Rightarrow> json \<Rightarrow> string option \<Rightarrow> (string \<times> websocket) list
     \<Rightarrow> gateway \<Rightarrow> gateway run" where
  "broadcast_loop broken msg exclude [] g = Returns g"
| "broadcast_loop broken msg exclude ((client_id, connection) # rest) g =
     (if Some client_id \<noteq> exclude then
        (if broken connection then
           (case disconnect client_id g of
              Deadlock g' \<Rightarrow> Deadlock g'
            | Returns g' \<Rightarrow> broadcast_loop broken msg exclude rest g')
         else broadcast_loop broken msg exclude rest
                (g\<lparr>trace := trace g @ [Delivered connection msg]\<rparr>))
      else broadcast_loop broken msg exclude rest g)"

definition broadcast ::
  "(websocket \<Rightarrow> bool) \<Rightarrow> json \<Rightarrow> string option \<Rightarrow> gateway \<Rightarrow> gateway run" where
  "broadcast broken msg exclude g =
     (if lock_held g then Deadlock g
      else
        (case broadcast_loop broken msg exclude (active_connections g) (g\<lparr>lock_held := True\<rparr>) of
           Deadlock g' \<Rightarrow> Deadlock g'
         | Returns g' \<Rightarrow> Returns (g'\<lparr>lock_held := False\<rparr>)))"

section \<open>The real-time endpoint\<close>

text \<open>
  What \<open>await websocket.receive_text()\<close> followed by \<open>json.loads\<close> yields: the peer
  has gone (\<open>WebSocketDisconnect\<close>), the text is not JSON (\<open>JSONDecodeError\<close>), or the
  parsed value.
\<close>

datatype frame = Gone | Malformed | Parsed json

text \<open>Whether the \<open>while True\<close> loop goes on after a frame.\<close>

datatype status = Open | Closed

text \<open>
  The local state of one run of \<open>websocket_endpoint\<close> is its \<open>client_id\<close>, fixed at
  the start, and \<open>auth_token\<close>, here the second component of the state: \<open>None\<close> as
  long as no token has been accepted.
\<close>

type_synonym session = "status \<times> json option \<times> gateway"

definition envelope :: "string \<Rightarrow> json \<Rightarrow> json" where
  "envelope t payload = JObj [(''type'', JStr t), (''payload'', payload)]"

definition error_payload :: "string \<Rightarrow> json" where
  "error_payload m = JObj [(''error'', JStr m)]"

text \<open>
  Modelled from the spec: the class \<open>ChatRequest\<close> of the module \<open>models\<close> is not
  among the sources; a chat request carries a \<open>prompt\<close>, a string.
\<close>

fun new_ChatRequest :: "json \<Rightarrow> exn + ChatRequest" where
  "new_ChatRequest (JStr s) = Inr \<lparr>prompt = s\<rparr>"
| "new_ChatRequest _ = Inl ValidationError"

text \<open>Reading an attribute of a value: a \<open>dict\<close> has entries, not attributes.\<close>

fun py_attr :: "json \<Rightarrow> string \<Rightarrow> exn + json" where
  "py_attr v a = Inl AttributeError"

definition process_chat_message ::
  "validator \<Rightarrow> nat \<Rightarrow> json \<Rightarrow> json \<Rightarrow> gateway \<Rightarrow> json \<times> gateway" where
  "process_chat_message supabase_validate_key pick content auth_token g =
     (let g1 = g\<lparr>trace := trace g @ [Validated auth_token]\<rparr> in
      case supabase_validate_key auth_token of
        Inl _ \<Rightarrow> (error_payload ''Failed to process message'', g1)
      | Inr None \<Rightarrow> (error_payload ''Invalid authentication token'', g1)
      | Inr (Some u) \<Rightarrow>
          if \<not> valid u then (error_payload ''Invalid authentication token'', g1)
          else
            (case new_ChatRequest content of
               Inl _ \<Rightarrow> (error_payload ''Failed to process message'', g1)
             | Inr chat_request \<Rightarrow>
                 let g2 = g1\<lparr>trace := trace g1 @ [Responded (prompt chat_request)]\<rparr> in
                 (case gpt_chat chat_request (Some u) pick of
                    Inl _ \<Rightarrow> (error_payload ''Failed to process message'', g2)
                  | Inr response \<Rightarrow>
                      (case py_attr response ''response'' of
                         Inl _ \<Rightarrow> (error_payload ''Failed to process message'', g2)
                       | Inr c \<Rightarrow> (JObj [(''content'', c)], g2)))))"

text \<open>
  The two outer handlers of \<open>websocket_endpoint\<close> (\<open>WebSocketDisconnect\<close> and any
  other exception) both deregister the client and end the loop.
\<close>

definition leave :: "string \<Rightarrow> json option \<Rightarrow> gateway \<Rightarrow> session run" where
  "leave client_id auth_token g =
     (case disconnect client_id g of
        Deadlock g' \<Rightarrow> Deadlock (Closed, auth_token, g')
      | Returns g' \<Rightarrow> Returns (Closed, auth_token, g'))"

text \<open>Send a reply to the client itself, then \<open>continue\<close>.\<close>

definition reply ::
  "(websocket \<Rightarrow> bool) \<Rightarrow> json \<Rightarrow> string \<Rightarrow> json option \<Rightarrow> gateway \<Rightarrow> session run" where
  "reply broken msg client_id auth_token g =
     (case send_personal_message broken msg client_id g of
        Deadlock g' \<Rightarrow> Deadlock (Open, auth_token, g')
      | Returns g' \<Rightarrow> Returns (Open, auth_token, g'))"

definition auth_failed :: json where
  "auth_failed = envelope ''auth_failed'' (error_payload ''Invalid authentication token'')"

definition handle_auth ::
  "validator \<Rightarrow> (websocket \<Rightarrow> bool) \<Rightarrow> string \<Rightarrow> json \<Rightarrow> json option \<Rightarrow> gateway
     \<Rightarrow> session run" where
  "handle_auth supabase_validate_key broken client_id msg auth_token g =
     (case py_get msg ''payload'' (JObj []) of
        Inl _ \<Rightarrow> leave client_id auth_token g
      | Inr payload \<Rightarrow>
          (case py_get payload ''token'' JNull of
             Inl _ \<Rightarrow> leave client_id auth_token g
           | Inr token \<Rightarrow>
               if truthy token then
                 (let g1 = g\<lparr>trace := trace g @ [Validated token]\<rparr> in
                  case supabase_validate_key token of
                    Inl _ \<Rightarrow> leave client_id auth_token g1
                  | Inr None \<Rightarrow> reply broken auth_failed client_id auth_token g1
                  | Inr (Some u) \<Rightarrow>
                      if valid u then
                        reply broken
                          (envelope ''auth_success'' (JObj [(''user_name'', JStr (user_name u))]))
                          client_id (Some token) g1
                      else reply broken auth_failed client_id auth_token g1)
               else reply broken auth_failed client_id auth_token g))"

text \<open>\<open>not auth_token\<close>, for the local variable that starts as \<open>None\<close>.\<close>

fun no_token :: "json option \<Rightarrow> bool" where
  "no_token None = True"
| "no_token (Some t) = (\<not> truthy t)"

definition handle_chat_message ::
  "validator \<Rightarrow> (websocket \<Rightarrow> bool) \<Rightarrow> nat \<Rightarrow> string \<Rightarrow> json \<Rightarrow> json option \<Rightarrow> gateway
     \<Rightarrow> session run" where
  "handle_chat_message supabase_validate_key broken pick client_id msg auth_token g =
     (if no_token auth_token then
        reply broken (envelope ''error'' (error_payload ''Authentication required''))
          client_id auth_token g
      else
        (case py_get msg ''payload'' (JObj []) of
           Inl _ \<Rightarrow> leave client_id auth_token g
         | Inr payload \<Rightarrow>
             (case py_get payload ''content'' JNull of
                Inl _ \<Rightarrow> leave client_id auth_token g
              | Inr content \<Rightarrow>
                  if truthy content then
                    (case process_chat_message supabase_validate_key pick content
                            (case auth_token of Some t \<Rightarrow> t | None \<Rightarrow> JNull) g of
                       (response, g1) \<Rightarrow>
                         reply broken (envelope ''chat_response'' response)
                           client_id auth_token g1)
                  else Returns (Open, auth_token, g))))"

text \<open>One turn of the \<open>while True\<close> loop of \<open>websocket_endpoint\<close>.\<close>

definition receive ::
  "validator \<Rightarrow> (websocket \<Rightarrow> bool) \<Rightarrow> nat \<Rightarrow> string \<Rightarrow> frame \<Rightarrow> json option \<Rightarrow> gateway
     \<Rightarrow> session run" where
  "receive supabase_validate_key broken pick client_id fr auth_token g =
     (case fr of
        Gone \<Rightarrow> leave client_id auth_token g
      | Malformed \<Rightarrow>
          reply broken (envelope ''error'' (error_payload ''Invalid message format''))
            client_id auth_token g
      | Parsed msg \<Rightarrow>
          (case py_get msg ''type'' JNull of
             Inl _ \<Rightarrow> leave client_id auth_token g
           | Inr t \<Rightarrow>
               if t = JStr ''auth'' then
                 handle_auth supabase_validate_key broken client_id msg auth_token g
               else if t = JStr ''chat_message'' then
                 handle_chat_message supabase_validate_key broken pick client_id msg auth_token g
               else Returns (Open, auth_token, g)))"

text \<open>
  A run of the endpoint over the frames that arrive: each turn comes with the validator
  as it answers at that moment (memberships can be revoked between two frames) and the
  reading of the random source. The loop ends when a turn closes the session or never
  returns; it is still open when the frames seen so far are used up.
\<close>

type_synonym turn = "validator \<times> nat \<times> frame"

fun serve ::
  "(websocket \<Rightarrow> bool) \<Rightarrow> string \<Rightarrow> turn list \<Rightarrow> json option \<Rightarrow> gateway \<Rightarrow> session run" where
  "serve broken client_id [] auth_token g = Returns (Open, auth_token, g)"
| "serve broken client_id ((v, pick, fr) # rest) auth_token g =
     (case receive v broken pick client_id fr auth_token g of
        Deadlock s \<Rightarrow> Deadlock s
      | Returns (Closed, auth_token', g') \<Rightarrow> Returns (Closed, auth_token', g')
      | Returns (Open, auth_token', g') \<Rightarrow> serve broken client_id rest auth_token' g')"

definition websocket_endpoint ::
  "(websocket \<Rightarrow> bool) \<Rightarrow> websocket \<Rightarrow> string \<Rightarrow> turn list \<Rightarrow> gateway \<Rightarrow> session run" where
  "websocket_endpoint broken ws client_id turns g =
     (case connect ws client_id g of
        Deadlock g' \<Rightarrow> Deadlock (Closed, None, g')
      | Returns g' \<Rightarrow> serve broken client_id turns None g')"

section \<open>Notions used in the statements\<close>

text \<open>
  An active membership of an invitation: a row of the memberships whose
  \<open>invitation_code\<close> is the given one and whose \<open>active\<close> flag is true.
\<close>

definition has_active_membership :: "world \<Rightarrow> string \<Rightarrow> bool" where
  "has_active_membership w c =
     list_ex (\<lambda>r. column r ''invitation_code'' = Some c \<and> column r ''active'' = Some ''true'')
       (tables w ''rest/v1/memberships'')"

text \<open>The invitation with a given code: the first such row of the invitations.\<close>

definition find_invitation :: "world \<Rightarrow> string \<Rightarrow> row option" where
  "find_invitation w c =
     find (\<lambda>r. column r ''code'' = Some c) (tables w ''rest/v1/invitations'')"

text \<open>The active memberships whose \<open>membership_code\<close> is the presented key.\<close>

definition active_memberships :: "world \<Rightarrow> string \<Rightarrow> row list" where
  "active_memberships w k =
     filter (\<lambda>r. column r ''membership_code'' = Some k \<and> column r ''active'' = Some ''true'')
       (tables w ''rest/v1/memberships'')"

text \<open>
  Every membership's \<open>status\<close> column reads \<open>active\<close> exactly when its \<open>active\<close>
  flag is true.
\<close>

definition marks_agree :: "world \<Rightarrow> bool" where
  "marks_agree w =
     list_all (\<lambda>r. (column r ''status'' = Some ''active'') = (column r ''active'' = Some ''true''))
       (tables w ''rest/v1/memberships'')"

text \<open>The state an operation ends in, whether it returns or not.\<close>

fun final :: "'a run \<Rightarrow> 'a" where
  "final (Returns s) = s"
| "final (Deadlock s) = s"

text \<open>
  The token of a frame that is an \<open>auth\<close> message whose non-empty token the validator
  accepts as valid; \<open>None\<close> for every other frame.
\<close>

definition accepted_token :: "validator \<Rightarrow> frame \<Rightarrow> json option" where
  "accepted_token v fr =
     (case fr of
        Parsed (JObj kv) \<Rightarrow>
          (if map_of kv ''type'' = Some (JStr ''auth'') then
             (case map_of kv ''payload'' of
                Some (JObj p) \<Rightarrow>
                  (case map_of p ''token'' of
                     Some token \<Rightarrow>
                       (if truthy token then
                          (case v token of
                             Inr (Some u) \<Rightarrow> if valid u then Some token else None
                           | _ \<Rightarrow> None)
                        else None)
                   | None \<Rightarrow> None)
              | _ \<Rightarrow> None)
           else None)
      | _ \<Rightarrow> None)"

section \<open>Example inputs\<close>

definition demo_invitation :: "string \<Rightarrow> string \<Rightarrow> row" where
  "demo_invitation c st =
     [(''code'', JStr c), (''pin'', JStr ''4821''),
      (''invited_name'', JStr ''Ann''), (''status'', JStr st)]"

definition demo_world :: "string \<Rightarrow> world" where
  "demo_world st =
     \<lparr>tables = (\<lambda>_. [])(''rest/v1/invitations'' :=
                 [demo_invitation ''ABC123'' st, demo_invitation ''XYZ789'' st]),
      calls = 0, draws = 0\<rparr>"

text \<open>
  An environment in which the store answers every request, the random source yields
  the same three bytes at every draw and the clock reads the same second.
\<close>

definition demo_env :: env where
  "demo_env =
     \<lparr>fault = (\<lambda>_. False), token_bytes = (\<lambda>_. (0xAB, 0x0C, 0x7F)),
      utcnow_timestamp = 1700000000, utcnow_isoformat = ''2023-11-14T22:13:20''\<rparr>"

definition demo_request :: "string \<Rightarrow> ApproveMembershipRequest" where
  "demo_request c = \<lparr>invitation_code = c, req_user_name = None\<rparr>"

definition demo_membership :: "string \<Rightarrow> row" where
  "demo_membership c =
     [(''invitation_code'', JStr c), (''membership_code'', JStr ''MEMBER-AB0C7F''),
      (''membership_key'', JStr ''MEMBER-AB0C7F-1700000000''), (''issued_to'', JStr ''Ann''),
      (''active'', JBool True), (''status'', JStr ''active''),
      (''issued_at'', JStr ''2023-11-14T22:13:20'')]"

definition members_world :: "row list \<Rightarrow> world" where
  "members_world ms = \<lparr>tables = (\<lambda>_. [])(''rest/v1/memberships'' := ms), calls = 0, draws = 0\<rparr>"

definition demo_gateway :: gateway where
  "demo_gateway =
     \<lparr>active_connections = [(''A'', 1), (''B'', 2), (''C'', 3)], lock_held = False, trace = []\<rparr>"

definition all_sound :: "websocket \<Rightarrow> bool" where
  "all_sound ws = False"

definition second_broken :: "websocket \<Rightarrow> bool" where
  "second_broken ws = (ws = 2)"

definition accept_all :: validator where
  "accept_all t = Inr (Some \<lparr>valid = True, user_name = ''Ann''\<rparr>)"

definition accept_none :: validator where
  "accept_none t = Inr None"

definition auth_frame :: "string \<Rightarrow> frame" where
  "auth_frame k = Parsed (envelope ''auth'' (JObj [(''token'', JStr k)]))"

definition chat_frame :: "string \<Rightarrow> frame" where
  "chat_frame c = Parsed (envelope ''chat_message'' (JObj [(''content'', JStr c)]))"

section \<open>Facts about the store\<close>

lemma eq_filter_inj [simp]: "(eq_filter a = eq_filter b) = (a = b)"
  by (simp add: eq_filter_def)

lemma eq_filter_literal [simp]:
  "(CHR ''e'' # CHR ''q'' # CHR ''.'' # s = eq_filter t) = (s = t)"
  by (simp add: eq_filter_def)

lemma satisfies_eq_filter [simp]:
  "k \<noteq> ''select'' \<Longrightarrow> satisfies r (k, eq_filter v) = (column r k = Some v)"
  by (auto simp: satisfies_def split: option.splits)

lemma satisfies_literal [simp]:
  "k \<noteq> ''select'' \<Longrightarrow>
     satisfies r (k, CHR ''e'' # CHR ''q'' # CHR ''.'' # v) = (column r k = Some v)"
  by (auto simp: satisfies_def split: option.splits)

lemma satisfies_select [simp]: "satisfies r (''select'', v)"
  by (simp add: satisfies_def)

lemma filter_empty_list_ex: "(filter P xs = []) = (\<not> list_ex P xs)"
  by (induction xs) auto

lemma find_filter: "find P xs = (case filter P xs of [] \<Rightarrow> None | x # _ \<Rightarrow> Some x)"
  by (induction xs) auto

lemma safe_get_answer:
  "\<not> fault e (calls w) \<Longrightarrow>
     safe_get_from_supabase e ep ps w =
       (Inr (matching ps (tables w ep)), w\<lparr>calls := Suc (calls w)\<rparr>)"
  by (simp add: safe_get_from_supabase_def)

lemma guard_rows:
  "matching [(''invitation_code'', eq_filter c), (''active'', ''eq.true'')]
       (tables w ''rest/v1/memberships'') = [] \<longleftrightarrow> \<not> has_active_membership w c"
  by (simp add: matching_def has_active_membership_def filter_empty_list_ex)

lemma invitation_rows:
  "find_invitation w c =
     (case matching [(''code'', eq_filter c), (''select'', ''*'')]
             (tables w ''rest/v1/invitations'') of
        [] \<Rightarrow> None
      | x # _ \<Rightarrow> Some x)"
  by (simp add: matching_def find_invitation_def find_filter)

lemma approve_conflict:
  assumes "\<not> fault e (calls w)" and "has_active_membership w (invitation_code request)"
  shows "approve_membership e request w =
           (Inl (HTTPException 409 ''Membership already exists for this invitation code.''),
            w\<lparr>calls := Suc (calls w)\<rparr>)"
  using assms by (simp add: approve_membership_def safe_get_answer guard_rows)

lemma approve_success_world:
  assumes "approve_membership e request w = (Inr resp, w')"
  shows "has_active_membership w' (invitation_code request)"
  using assms
  unfolding approve_membership_def safe_get_from_supabase_def safe_post_to_supabase_def
  by (auto simp: Let_def has_active_membership_def column_def split: if_splits list.splits)

lemma approve_precondition:
  assumes "\<not> fault e (calls w)" and "\<not> fault e (Suc (calls w))"
    and "\<not> has_active_membership w (invitation_code request)"
  shows "approve_membership e request w =
           (case find_invitation w (invitation_code request) of
              None \<Rightarrow> (Inl (HTTPException 404 ''Invitation not found.''),
                        w\<lparr>calls := Suc (Suc (calls w))\<rparr>)
            | Some i \<Rightarrow>
                if map_of i ''status'' \<noteq> Some (JStr ''onboarded'') then
                  (Inl (HTTPException 400 ''Invitation not onboarded yet.''),
                   w\<lparr>calls := Suc (Suc (calls w))\<rparr>)
                else approve_membership e request w)"
  using assms
  by (simp add: approve_membership_def safe_get_answer guard_rows invitation_rows
        split: list.splits)

section \<open>Approval: replay guard and precondition\<close>

lemma str_int_demo: "str_int 1700000000 = ''1700000000''"
  by (simp add: str_int_def str_nat.simps digit_char_def)

lemma token_demo: "upper (token_hex (0xAB, 0x0C, 0x7F)) = ''AB0C7F''"
  by (simp add: upper_def hex_byte_def hex_char_def upper_char_def)

lemma demo_guard_query:
  "safe_get_from_supabase demo_env ''rest/v1/memberships'' ps (demo_world st) =
     (Inr [], (demo_world st)\<lparr>calls := 1\<rparr>)"
  by (simp add: safe_get_from_supabase_def demo_env_def demo_world_def matching_def)

lemma demo_approve:
  "approve_membership demo_env (demo_request ''ABC123'') (demo_world ''onboarded'') =
     (Inr \<lparr>success = True, message = ''Membership approved.'',
           membership_key = ''MEMBER-AB0C7F-1700000000'', membership_code = ''MEMBER-AB0C7F''\<rparr>,
      \<lparr>tables = (tables (demo_world ''onboarded''))(''rest/v1/memberships'' :=
          [[(''invitation_code'', JStr ''ABC123''), (''membership_code'', JStr ''MEMBER-AB0C7F''),
            (''membership_key'', JStr ''MEMBER-AB0C7F-1700000000''), (''issued_to'', JStr ''Ann''),
            (''active'', JBool True), (''issued_at'', JStr ''2023-11-14T22:13:20'')]]),
       calls = 3, draws = 1\<rparr>)"
  by (simp add: approve_membership_def demo_env_def demo_request_def demo_world_def
      demo_invitation_def safe_get_from_supabase_def safe_post_to_supabase_def matching_def
      column_def str_int_demo token_demo Let_def del: token_hex.simps)

text \<open>
  C1. Replay prevention: when the store answers the guard query and an active membership
  of the invitation code exists, approval fails with 409 and leaves the store as it was,
  no token drawn; and after a successful approval, a second approval of the same code
  fails with 409 in the same way.
\<close>

theorem approve_replay_guard:
  assumes "\<not> fault e (calls w)"
  shows "(has_active_membership w (invitation_code request) \<longrightarrow>
            approve_membership e request w =
              (Inl (HTTPException 409 ''Membership already exists for this invitation code.''),
               w\<lparr>calls := Suc (calls w)\<rparr>))
       \<and> (\<forall>resp w1 e2 request2.
            approve_membership e request w = (Inr resp, w1) \<and> \<not> fault e2 (calls w1)
              \<and> invitation_code request2 = invitation_code request \<longrightarrow>
            approve_membership e2 request2 w1 =
              (Inl (HTTPException 409 ''Membership already exists for this invitation code.''),
               w1\<lparr>calls := Suc (calls w1)\<rparr>))"
proof (intro conjI impI allI)
  assume "has_active_membership w (invitation_code request)"
  with assms show "approve_membership e request w =
      (Inl (HTTPException 409 ''Membership already exists for this invitation code.''),
       w\<lparr>calls := Suc (calls w)\<rparr>)"
    by (rule approve_conflict)
next
  fix resp w1 and e2 :: env and request2 :: ApproveMembershipRequest
  assume a: "approve_membership e request w = (Inr resp, w1) \<and> \<not> fault e2 (calls w1)
              \<and> invitation_code request2 = invitation_code request"
  then have "has_active_membership w1 (invitation_code request2)"
    using approve_success_world [of e request w resp w1] by simp
  with a show "approve_membership e2 request2 w1 =
      (Inl (HTTPException 409 ''Membership already exists for this invitation code.''),
       w1\<lparr>calls := Suc (calls w1)\<rparr>)"
    by (simp add: approve_conflict)
qed

theorem approve_replay_guard_witness:
  "fst (approve_membership demo_env (demo_request ''ABC123'') (demo_world ''onboarded'')) =
     Inr \<lparr>success = True, message = ''Membership approved.'',
          membership_key = ''MEMBER-AB0C7F-1700000000'', membership_code = ''MEMBER-AB0C7F''\<rparr>
   \<and> has_active_membership
        (snd (approve_membership demo_env (demo_request ''ABC123'') (demo_world ''onboarded'')))
        ''ABC123''
   \<and> fst (approve_membership demo_env (demo_request ''ABC123'')
        (snd (approve_membership demo_env (demo_request ''ABC123'') (demo_world ''onboarded'')))) =
     Inl (HTTPException 409 ''Membership already exists for this invitation code.'')"
proof -
  let ?w = "demo_world ''onboarded''"
  obtain resp w1 where
    first: "approve_membership demo_env (demo_request ''ABC123'') ?w = (Inr resp, w1)"
    using demo_approve by blast
  have ok: "\<not> fault demo_env (calls ?w)" and ok1: "\<not> fault demo_env (calls w1)"
    by (simp_all add: demo_env_def)
  have active: "has_active_membership w1 ''ABC123''"
    using approve_success_world [OF first] by (simp add: demo_request_def)
  have "approve_membership demo_env (demo_request ''ABC123'') w1 =
      (Inl (HTTPException 409 ''Membership already exists for this invitation code.''),
       w1\<lparr>calls := Suc (calls w1)\<rparr>)"
    using approve_replay_guard [OF ok, of "demo_request ''ABC123''"] first ok1 by blast
  with first active show ?thesis by (simp add: demo_approve)
qed

text \<open>
  C2. Approval precondition: when the store answers the two queries and the invitation
  code has no active membership, approval fails with 404 if no invitation has the code
  and with 400 if the invitation's status is not \<open>onboarded\<close>; in both cases the
  collections are unchanged and no random token has been drawn.
\<close>

theorem approve_precondition_errors:
  assumes "\<not> fault e (calls w)" and "\<not> fault e (Suc (calls w))"
    and "\<not> has_active_membership w (invitation_code request)"
  shows "(find_invitation w (invitation_code request) = None \<longrightarrow>
            approve_membership e request w =
              (Inl (HTTPException 404 ''Invitation not found.''),
               w\<lparr>calls := Suc (Suc (calls w))\<rparr>))
       \<and> (\<forall>i. find_invitation w (invitation_code request) = Some i
                \<and> map_of i ''status'' \<noteq> Some (JStr ''onboarded'') \<longrightarrow>
            approve_membership e request w =
              (Inl (HTTPException 400 ''Invitation not onboarded yet.''),
               w\<lparr>calls := Suc (Suc (calls w))\<rparr>))
       \<and> tables (w\<lparr>calls := Suc (Suc (calls w))\<rparr>) = tables w
       \<and> draws (w\<lparr>calls := Suc (Suc (calls w))\<rparr>) = draws w"
  using approve_precondition [OF assms] by (auto split: option.splits)

theorem approve_precondition_errors_witness:
  "fst (approve_membership demo_env (demo_request ''NOSUCH'') (demo_world ''pending'')) =
     Inl (HTTPException 404 ''Invitation not found.'')
   \<and> fst (approve_membership demo_env (demo_request ''ABC123'') (demo_world ''pending'')) =
     Inl (HTTPException 400 ''Invitation not onboarded yet.'')
   \<and> tables (snd (approve_membership demo_env (demo_request ''ABC123'') (demo_world ''pending'')))
       = tables (demo_world ''pending'')"
proof -
  let ?w = "demo_world ''pending''"
  have ok: "\<not> fault demo_env (calls ?w)" "\<not> fault demo_env (Suc (calls ?w))"
    by (simp_all add: demo_env_def)
  have none: "\<not> has_active_membership ?w c" for c
    by (simp add: has_active_membership_def demo_world_def)
  have absent: "find_invitation ?w ''NOSUCH'' = None"
    by (simp add: find_invitation_def demo_world_def demo_invitation_def column_def)
  have pending: "find_invitation ?w ''ABC123'' = Some (demo_invitation ''ABC123'' ''pending'')"
    by (simp add: find_invitation_def demo_world_def demo_invitation_def column_def)
  have st: "map_of (demo_invitation ''ABC123'' ''pending'') ''status'' \<noteq> Some (JStr ''onboarded'')"
    by (simp add: demo_invitation_def)
  have n: "\<not> has_active_membership ?w (invitation_code (demo_request ''NOSUCH''))"
    and a: "\<not> has_active_membership ?w (invitation_code (demo_request ''ABC123''))"
    by (rule none)+
  from approve_precondition_errors [OF ok n] absent
  have r1: "approve_membership demo_env (demo_request ''NOSUCH'') ?w =
      (Inl (HTTPException 404 ''Invitation not found.''), ?w\<lparr>calls := Suc (Suc (calls ?w))\<rparr>)"
    by (simp add: demo_request_def)
  from approve_precondition_errors [OF ok a] pending st
  have r2: "approve_membership demo_env (demo_request ''ABC123'') ?w =
      (Inl (HTTPException 400 ''Invitation not onboarded yet.''), ?w\<lparr>calls := Suc (Suc (calls ?w))\<rparr>)"
    by (simp add: demo_request_def)
  show ?thesis by (simp add: r1 r2)
qed

section \<open>Onboarding\<close>

lemma submit_onboarding_invitations:
  "tables (snd (submit_onboarding e request w)) ''rest/v1/invitations'' =
     tables w ''rest/v1/invitations''"
  by (simp add: submit_onboarding_def safe_get_from_supabase_def safe_post_to_supabase_def)

text \<open>
  C4. Submitting the onboarding of a pending invitation succeeds and stores the
  onboarding record, but the invitation keeps the status \<open>pending\<close>: the approval that
  follows is refused with 400.
\<close>

theorem submit_onboarding_keeps_pending:
  "fst (submit_onboarding demo_env
          \<lparr>code = ''ABC123'', voice_consent = True, responses = JObj []\<rparr>
          (demo_world ''pending'')) =
     Inr [(''status'', JStr ''submitted''), (''code'', JStr ''ABC123'')]
   \<and> find_invitation
        (snd (submit_onboarding demo_env
                \<lparr>code = ''ABC123'', voice_consent = True, responses = JObj []\<rparr>
                (demo_world ''pending''))) ''ABC123'' =
     Some [(''code'', JStr ''ABC123''), (''pin'', JStr ''4821''),
           (''invited_name'', JStr ''Ann''), (''status'', JStr ''pending'')]
   \<and> fst (approve_membership demo_env (demo_request ''ABC123'')
        (snd (submit_onboarding demo_env
                \<lparr>code = ''ABC123'', voice_consent = True, responses = JObj []\<rparr>
                (demo_world ''pending'')))) =
     Inl (HTTPException 400 ''Invitation not onboarded yet.'')"
  by (simp add: submit_onboarding_def approve_membership_def demo_env_def demo_request_def
      demo_world_def demo_invitation_def safe_get_from_supabase_def safe_post_to_supabase_def
      matching_def column_def find_invitation_def)

section \<open>Key validation\<close>

lemma validate_rows:
  assumes "marks_agree w"
  shows "matching [(''membership_code'', eq_filter k), (''status'', ''eq.active'')]
           (tables w ''rest/v1/memberships'') = active_memberships w k"
  using assms unfolding matching_def active_memberships_def marks_agree_def
  by (intro filter_cong) (auto simp: list_all_iff)

text \<open>
  C3 as stated fails: with two active memberships carrying the presented code, the
  validator answers valid.
\<close>

theorem validate_key_two_matches:
  "length (active_memberships
             (members_world [demo_membership ''ABC123'', demo_membership ''XYZ789''])
             ''MEMBER-AB0C7F'') = 2
   \<and> fst (validate_key demo_env \<lparr>key = ''MEMBER-AB0C7F''\<rparr>
            (members_world [demo_membership ''ABC123'', demo_membership ''XYZ789''])) =
       Inr [(''valid'', JBool True), (''key'', JStr ''MEMBER-AB0C7F'')]"
  by (simp add: validate_key_def safe_get_from_supabase_def demo_env_def members_world_def
      demo_membership_def matching_def column_def active_memberships_def)

text \<open>
  C3, amended. In a store whose memberships carry a \<open>status\<close> that reads \<open>active\<close>
  exactly when the \<open>active\<close> flag is true, and which answers the query, the validator
  answers valid when at least one active membership carries the presented code, however
  many there are, and fails with 404 when none does; the store is not changed.
\<close>

theorem validate_key_at_least_one:
  assumes "\<not> fault e (calls w)" and "marks_agree w"
  shows "validate_key e request w =
           (if active_memberships w (key request) = []
            then Inl (HTTPException 404 ''Invalid membership key'')
            else Inr [(''valid'', JBool True), (''key'', JStr (key request))],
            w\<lparr>calls := Suc (calls w)\<rparr>)"
  using assms by (simp add: validate_key_def safe_get_answer validate_rows)

theorem validate_key_at_least_one_witness:
  "validate_key demo_env \<lparr>key = ''MEMBER-AB0C7F''\<rparr> (members_world [demo_membership ''ABC123'']) =
     (Inr [(''valid'', JBool True), (''key'', JStr ''MEMBER-AB0C7F'')],
      (members_world [demo_membership ''ABC123''])\<lparr>calls := 1\<rparr>)
   \<and> fst (validate_key demo_env \<lparr>key = ''MEMBER-000000''\<rparr>
            (members_world [demo_membership ''ABC123''])) =
       Inl (HTTPException 404 ''Invalid membership key'')"
proof -
  let ?w = "members_world [demo_membership ''ABC123'']"
  have ok: "\<not> fault demo_env (calls ?w)"
    by (simp add: demo_env_def)
  have agree: "marks_agree ?w"
    by (simp add: marks_agree_def members_world_def demo_membership_def column_def)
  have one: "active_memberships ?w ''MEMBER-AB0C7F'' \<noteq> []"
    and none: "active_memberships ?w ''MEMBER-000000'' = []"
    by (simp_all add: active_memberships_def members_world_def demo_membership_def column_def)
  show ?thesis
    using validate_key_at_least_one [OF ok agree, of "\<lparr>key = ''MEMBER-AB0C7F''\<rparr>"]
      validate_key_at_least_one [OF ok agree, of "\<lparr>key = ''MEMBER-000000''\<rparr>"] one none
    by (simp add: members_world_def)
qed

section \<open>The chat endpoint\<close>

text \<open>
  C10. A bearer key for which the validator finds no membership is served as a request
  without credentials: the dependency yields \<open>None\<close>, the answer is the one of the
  anonymous request, a response drawn from the anonymous list, and no exception.
\<close>

theorem invalid_bearer_is_anonymous:
  assumes "v (JStr k) = Inr None"
  shows "get_current_user v (Some k) = Inr None
       \<and> post_gpt_chat v (Some k) request pick = post_gpt_chat v None request pick
       \<and> post_gpt_chat v (Some k) request pick =
           Inr (JObj [(''response'', JStr (anonymous_responses ! (pick mod 5)))])"
  using assms
  by (simp add: get_current_user_def post_gpt_chat_def gpt_chat_def anonymous_responses_def)

theorem invalid_bearer_is_anonymous_witness:
  "accept_none (JStr ''MEMBER-000000'') = Inr None
   \<and> post_gpt_chat accept_none (Some ''MEMBER-000000'') \<lparr>prompt = ''hi''\<rparr> 7 =
       Inr (JObj [(''response'',
         JStr ''Based on my knowledge, I would recommend the following approach...'')])"
proof -
  have h: "accept_none (JStr ''MEMBER-000000'') = Inr None"
    by (simp add: accept_none_def)
  have r: "post_gpt_chat accept_none (Some ''MEMBER-000000'') \<lparr>prompt = ''hi''\<rparr> 7 =
      Inr (JObj [(''response'', JStr (anonymous_responses ! (7 mod 5)))])"
    using invalid_bearer_is_anonymous [of accept_none "''MEMBER-000000''" "\<lparr>prompt = ''hi''\<rparr>" 7] h
    by blast
  show ?thesis
    using h by (simp add: r anonymous_responses_def)
qed

section \<open>The gateway\<close>

text \<open>
  What \<open>broadcast\<close> does in general: with every registered channel delivering, it
  returns after one delivery to each session but the excluded one, in the order of the
  registry; with a broken channel among the sessions it addresses, it never returns,
  and removes nobody.
\<close>

lemma broadcast_loop_sound:
  assumes "lock_held g" and "list_all (\<lambda>p. \<not> broken (snd p)) snapshot"
  shows "broadcast_loop broken msg exclude snapshot g =
           Returns (g\<lparr>trace := trace g @
             map (\<lambda>p. Delivered (snd p) msg) (filter (\<lambda>p. Some (fst p) \<noteq> exclude) snapshot)\<rparr>)"
  using assms
proof (induction snapshot arbitrary: g)
  case Nil
  then show ?case by simp
next
  case (Cons p snapshot)
  obtain client_id connection where p: "p = (client_id, connection)"
    by (cases p) auto
  with Cons.prems have sound: "\<not> broken connection"
    and rest: "list_all (\<lambda>p. \<not> broken (snd p)) snapshot"
    by simp_all
  show ?case
  proof (cases "Some client_id \<noteq> exclude")
    case True
    let ?g = "g\<lparr>trace := trace g @ [Delivered connection msg]\<rparr>"
    from Cons.prems have "lock_held ?g" by simp
    from Cons.IH [OF this rest] True sound p show ?thesis by simp
  next
    case False
    with Cons.IH [OF Cons.prems(1) rest] p show ?thesis by simp
  qed
qed

lemma broadcast_loop_blocks:
  assumes "lock_held g"
    and "list_ex (\<lambda>p. Some (fst p) \<noteq> exclude \<and> broken (snd p)) snapshot"
  shows "\<exists>g'. broadcast_loop broken msg exclude snapshot g = Deadlock g'
              \<and> active_connections g' = active_connections g \<and> lock_held g'"
  using assms
proof (induction snapshot arbitrary: g)
  case Nil
  then show ?case by simp
next
  case (Cons p snapshot)
  obtain client_id connection where p: "p = (client_id, connection)"
    by (cases p) auto
  show ?case
  proof (cases "Some client_id \<noteq> exclude")
    case addressed: True
    show ?thesis
    proof (cases "broken connection")
      case True
      with addressed p Cons.prems(1) show ?thesis
        by (simp add: disconnect_def)
    next
      case False
      let ?g = "g\<lparr>trace := trace g @ [Delivered connection msg]\<rparr>"
      from Cons.prems(1) have held: "lock_held ?g" by simp
      from Cons.prems(2) False p
      have "list_ex (\<lambda>p. Some (fst p) \<noteq> exclude \<and> broken (snd p)) snapshot" by simp
      from Cons.IH [OF held this] addressed False p show ?thesis by simp
    qed
  next
    case False
    with Cons.prems(2) p
    have "list_ex (\<lambda>p. Some (fst p) \<noteq> exclude \<and> broken (snd p)) snapshot" by auto
    from Cons.IH [OF Cons.prems(1) this] False p show ?thesis by simp
  qed
qed

lemma broadcast_sound_channels:
  assumes "\<not> lock_held g" and "list_all (\<lambda>p. \<not> broken (snd p)) (active_connections g)"
  shows "broadcast broken msg exclude g =
           Returns (g\<lparr>trace := trace g @
             map (\<lambda>p. Delivered (snd p) msg)
               (filter (\<lambda>p. Some (fst p) \<noteq> exclude) (active_connections g))\<rparr>)"
proof -
  have "lock_held (g\<lparr>lock_held := True\<rparr>)" by simp
  from broadcast_loop_sound [OF this, of broken "active_connections g" msg exclude] assms
  show ?thesis by (simp add: broadcast_def)
qed

lemma broadcast_broken_channel:
  assumes "\<not> lock_held g"
    and "list_ex (\<lambda>p. Some (fst p) \<noteq> exclude \<and> broken (snd p)) (active_connections g)"
  shows "\<exists>g'. broadcast broken msg exclude g = Deadlock g'
              \<and> active_connections g' = active_connections g \<and> lock_held g'"
proof -
  have "lock_held (g\<lparr>lock_held := True\<rparr>)" by simp
  from broadcast_loop_blocks [OF this, of exclude broken "active_connections g" msg] assms
  show ?thesis by (auto simp: broadcast_def)
qed

text \<open>
  C8. With sessions A, B, C registered and B's channel broken, \<open>broadcast\<close> delivers
  to A, then awaits in \<open>disconnect\<close> the lock it holds itself: it never returns, C
  receives nothing, B stays registered and the lock stays held.
\<close>

theorem broadcast_broken_peer_deadlocks:
  "broadcast second_broken msg None demo_gateway =
     Deadlock \<lparr>active_connections = [(''A'', 1), (''B'', 2), (''C'', 3)],
               lock_held = True, trace = [Delivered 1 msg]\<rparr>"
  by (simp add: broadcast_def disconnect_def demo_gateway_def second_broken_def)

lemma final_leave [simp]: "fst (snd (final (leave client_id auth_token g))) = auth_token"
  by (simp add: leave_def split: run.splits)

lemma final_reply [simp]: "fst (snd (final (reply broken m client_id auth_token g))) = auth_token"
  by (simp add: reply_def split: run.splits)

lemma reply_delivered:
  assumes "map_of (active_connections g) client_id = Some ws" and "\<not> broken ws"
  shows "reply broken m client_id auth_token g =
           Returns (Open, auth_token, g\<lparr>trace := trace g @ [Delivered ws m]\<rparr>)"
  using assms by (simp add: reply_def send_personal_message_def)

lemma handle_chat_message_token:
  "fst (snd (final (handle_chat_message v broken pick client_id msg auth_token g))) = auth_token"
  by (simp add: handle_chat_message_def split: sum.splits prod.splits)

lemma handle_auth_token:
  "fst (snd (final (handle_auth v broken client_id (JObj kv) auth_token g))) =
     (case map_of kv ''payload'' of
        Some (JObj p) \<Rightarrow>
          (case map_of p ''token'' of
             Some token \<Rightarrow>
               (if truthy token then
                  (case v token of
                     Inr (Some u) \<Rightarrow> if valid u then Some token else auth_token
                   | _ \<Rightarrow> auth_token)
                else auth_token)
           | None \<Rightarrow> auth_token)
      | _ \<Rightarrow> auth_token)"
  by (simp add: handle_auth_def Let_def split: option.splits json.splits sum.splits)

text \<open>
  C9. An unauthenticated session that receives a \<open>chat_message\<close> envelope, registered
  and with a channel that delivers, gets exactly one more event: the delivery of the
  error envelope \<open>Authentication required\<close> to its own channel. The validator and the
  responder are not called, nothing goes to another channel, the token stays unset, the
  registry is unchanged and the loop goes on.
\<close>

theorem unauthenticated_chat_rejected:
  assumes "py_get msg ''type'' JNull = Inr (JStr ''chat_message'')"
    and "map_of (active_connections g) client_id = Some ws" and "\<not> broken ws"
  shows "receive v broken pick client_id (Parsed msg) None g =
           Returns (Open, None,
             g\<lparr>trace := trace g @
               [Delivered ws
                 (JObj [(''type'', JStr ''error''),
                        (''payload'', JObj [(''error'', JStr ''Authentication required'')])])]\<rparr>)"
  using assms
  by (simp add: receive_def handle_chat_message_def reply_delivered envelope_def
      error_payload_def)

theorem unauthenticated_chat_rejected_witness:
  "receive accept_all all_sound 0 ''A'' (chat_frame ''hi'') None demo_gateway =
     Returns (Open, None,
       \<lparr>active_connections = [(''A'', 1), (''B'', 2), (''C'', 3)], lock_held = False,
        trace = [Delivered 1
                  (JObj [(''type'', JStr ''error''),
                         (''payload'', JObj [(''error'', JStr ''Authentication required'')])])]\<rparr>)"
proof -
  have t: "py_get (envelope ''chat_message'' (JObj [(''content'', JStr ''hi'')])) ''type'' JNull =
      Inr (JStr ''chat_message'')"
    by (simp add: envelope_def)
  have r: "map_of (active_connections demo_gateway) ''A'' = Some 1"
    by (simp add: demo_gateway_def)
  have s: "\<not> all_sound 1"
    by (simp add: all_sound_def)
  show ?thesis
    using unauthenticated_chat_rejected [where broken = all_sound and g = demo_gateway
        and client_id = "''A''" and ws = 1 and v = accept_all and pick = 0, OF t r s]
    by (simp add: chat_frame_def demo_gateway_def)
qed

text \<open>
  C6 as stated fails: a session authenticated with one key that receives an \<open>auth\<close>
  message with another valid key is rebound to the other key.
\<close>

theorem second_auth_rebinds:
  "receive accept_all all_sound 0 ''A'' (auth_frame ''MEMBER-111111'') None demo_gateway =
     Returns (Open, Some (JStr ''MEMBER-111111''),
       \<lparr>active_connections = [(''A'', 1), (''B'', 2), (''C'', 3)], lock_held = False,
        trace = [Validated (JStr ''MEMBER-111111''),
                 Delivered 1 (JObj [(''type'', JStr ''auth_success''),
                                    (''payload'', JObj [(''user_name'', JStr ''Ann'')])])]\<rparr>)
   \<and> receive accept_all all_sound 0 ''A'' (auth_frame ''MEMBER-222222'')
        (Some (JStr ''MEMBER-111111'')) demo_gateway =
     Returns (Open, Some (JStr ''MEMBER-222222''),
       \<lparr>active_connections = [(''A'', 1), (''B'', 2), (''C'', 3)], lock_held = False,
        trace = [Validated (JStr ''MEMBER-222222''),
                 Delivered 1 (JObj [(''type'', JStr ''auth_success''),
                                    (''payload'', JObj [(''user_name'', JStr ''Ann'')])])]\<rparr>)"
  by (simp add: receive_def handle_auth_def reply_def send_personal_message_def auth_frame_def
      envelope_def accept_all_def all_sound_def demo_gateway_def)

lemma receive_token:
  "fst (snd (final (receive v broken pick client_id fr auth_token g))) =
     (case accepted_token v fr of Some t \<Rightarrow> Some t | None \<Rightarrow> auth_token)"
proof (cases fr)
  case Gone
  then show ?thesis by (simp add: receive_def accepted_token_def)
next
  case Malformed
  then show ?thesis by (simp add: receive_def accepted_token_def)
next
  case (Parsed msg)
  show ?thesis
  proof (cases msg)
    case (JObj kv)
    with Parsed show ?thesis
      by (simp add: receive_def accepted_token_def handle_auth_token handle_chat_message_token
          split: option.splits json.splits sum.splits)
  qed (simp_all add: Parsed receive_def accepted_token_def)
qed

lemma serve_token:
  "list_all (\<lambda>(v, pick, fr). accepted_token v fr = None) turns \<Longrightarrow>
     fst (snd (final (serve broken client_id turns auth_token g))) = auth_token"
proof (induction turns arbitrary: g)
  case Nil
  then show ?case by simp
next
  case (Cons t turns)
  obtain v pick fr where t: "t = (v, pick, fr)"
    by (cases t) auto
  from Cons.prems t have none: "accepted_token v fr = None"
    and rest: "list_all (\<lambda>(v, pick, fr). accepted_token v fr = None) turns"
    by simp_all
  have step: "fst (snd (final (receive v broken pick client_id fr auth_token g))) = auth_token"
    by (simp add: receive_token none)
  show ?case
  proof (cases "receive v broken pick client_id fr auth_token g")
    case (Deadlock s)
    with step t show ?thesis by simp
  next
    case (Returns s)
    obtain st tok g' where s: "s = (st, tok, g')"
      by (cases s) auto
    with step Returns have tok: "tok = auth_token" by simp
    show ?thesis
    proof (cases st)
      case Open
      with Returns s t tok Cons.IH [OF rest, of g'] show ?thesis by simp
    next
      case Closed
      with Returns s t tok show ?thesis by simp
    qed
  qed
qed

text \<open>
  C6, amended. One turn of the loop changes the session's token exactly when the frame
  is an \<open>auth\<close> message whose non-empty token the validator accepts: the token then
  becomes the presented one, whatever it was before. Every other frame leaves it as it
  was, whether the turn returns or not; so a run of the session over turns none of which
  is an accepted \<open>auth\<close> message ends with the token it started with.
\<close>

theorem auth_token_changes_on_accepted_auth_only:
  "fst (snd (final (receive v broken pick client_id fr auth_token g))) =
     (case accepted_token v fr of Some t \<Rightarrow> Some t | None \<Rightarrow> auth_token)
   \<and> (list_all (\<lambda>(v, pick, fr). accepted_token v fr = None) turns \<longrightarrow>
        fst (snd (final (serve broken client_id turns auth_token g))) = auth_token)"
  by (simp add: receive_token serve_token)

theorem auth_token_changes_on_accepted_auth_only_witness:
  "fst (snd (final (serve all_sound ''A''
       [(accept_none, 0, auth_frame ''MEMBER-222222''), (accept_all, 0, chat_frame ''hi'')]
       (Some (JStr ''MEMBER-111111'')) demo_gateway))) = Some (JStr ''MEMBER-111111'')"
proof -
  have "list_all (\<lambda>(v, pick, fr). accepted_token v fr = None)
      [(accept_none, 0, auth_frame ''MEMBER-222222''), (accept_all, 0, chat_frame ''hi'')]"
    by (simp add: accepted_token_def auth_frame_def chat_frame_def envelope_def accept_none_def)
  with auth_token_changes_on_accepted_auth_only show ?thesis by blast
qed

section \<open>Chat messages of an authenticated session\<close>

lemma process_chat_message_validates:
  "\<exists>rest. trace (snd (process_chat_message v pick content t g)) = trace g @ Validated t # rest"
  by (simp add: process_chat_message_def Let_def split: sum.splits option.splits)

lemma process_chat_message_revoked:
  "v t = Inr None \<Longrightarrow>
     process_chat_message v pick content t g =
       (JObj [(''error'', JStr ''Invalid authentication token'')],
        g\<lparr>trace := trace g @ [Validated t]\<rparr>)"
  by (simp add: process_chat_message_def Let_def error_payload_def)

text \<open>
  C7 as stated fails: after a successful handshake, a \<open>chat_message\<close> makes the
  endpoint call the validator again with the cached token, and a key revoked in the
  meantime is refused.
\<close>

theorem chat_after_revocation_refused:
  "serve all_sound ''A''
     [(accept_all, 0, auth_frame ''MEMBER-AB0C7F''), (accept_none, 0, chat_frame ''hi'')]
     None demo_gateway =
   Returns (Open, Some (JStr ''MEMBER-AB0C7F''),
     \<lparr>active_connections = [(''A'', 1), (''B'', 2), (''C'', 3)], lock_held = False,
      trace = [Validated (JStr ''MEMBER-AB0C7F''),
               Delivered 1 (JObj [(''type'', JStr ''auth_success''),
                                  (''payload'', JObj [(''user_name'', JStr ''Ann'')])]),
               Validated (JStr ''MEMBER-AB0C7F''),
               Delivered 1 (JObj [(''type'', JStr ''chat_response''),
                                  (''payload'',
                                   JObj [(''error'', JStr ''Invalid authentication token'')])])]\<rparr>)"
  by (simp add: receive_def handle_auth_def handle_chat_message_def process_chat_message_def
      reply_def send_personal_message_def auth_frame_def chat_frame_def envelope_def
      error_payload_def accept_all_def accept_none_def all_sound_def demo_gateway_def)

text \<open>
  C7, amended. On an authenticated session whose channel delivers, a \<open>chat_message\<close>
  with non-empty content is answered by one \<open>chat_response\<close> to the session itself,
  after the validator has been called again with the cached token; when the validator
  no longer knows the key, the response carries the error
  \<open>Invalid authentication token\<close> and the responder is not called. The session stays
  open and keeps its token.
\<close>

theorem chat_message_revalidates:
  assumes "py_get msg ''type'' JNull = Inr (JStr ''chat_message'')"
    and "py_get msg ''payload'' (JObj []) = Inr p"
    and "py_get p ''content'' JNull = Inr c" and "truthy c" and "truthy t"
    and "map_of (active_connections g) client_id = Some ws" and "\<not> broken ws"
  shows "receive v broken pick client_id (Parsed msg) (Some t) g =
           Returns (Open, Some t,
             (snd (process_chat_message v pick c t g))
               \<lparr>trace := trace (snd (process_chat_message v pick c t g)) @
                  [Delivered ws
                    (JObj [(''type'', JStr ''chat_response''),
                           (''payload'', fst (process_chat_message v pick c t g))])]\<rparr>)
       \<and> (\<exists>rest. trace (snd (process_chat_message v pick c t g)) =
                    trace g @ Validated t # rest)
       \<and> (v t = Inr None \<longrightarrow>
            process_chat_message v pick c t g =
              (JObj [(''error'', JStr ''Invalid authentication token'')],
               g\<lparr>trace := trace g @ [Validated t]\<rparr>))"
proof (intro conjI impI)
  have reg: "map_of (active_connections (snd (process_chat_message v pick c t g))) client_id
      = Some ws"
    using assms(6)
    by (simp add: process_chat_message_def Let_def split: sum.splits option.splits)
  show "receive v broken pick client_id (Parsed msg) (Some t) g =
           Returns (Open, Some t,
             (snd (process_chat_message v pick c t g))
               \<lparr>trace := trace (snd (process_chat_message v pick c t g)) @
                  [Delivered ws
                    (JObj [(''type'', JStr ''chat_response''),
                           (''payload'', fst (process_chat_message v pick c t g))])]\<rparr>)"
  proof -
    obtain response g1 where pr: "process_chat_message v pick c t g = (response, g1)"
      by (cases "process_chat_message v pick c t g") auto
    with reg have "map_of (active_connections g1) client_id = Some ws"
      by simp
    with assms pr show ?thesis
      by (simp add: receive_def handle_chat_message_def reply_delivered envelope_def)
  qed
next
  show "\<exists>rest. trace (snd (process_chat_message v pick c t g)) = trace g @ Validated t # rest"
    by (rule process_chat_message_validates)
next
  assume "v t = Inr None"
  then show "process_chat_message v pick c t g =
      (JObj [(''error'', JStr ''Invalid authentication token'')],
       g\<lparr>trace := trace g @ [Validated t]\<rparr>)"
    by (rule process_chat_message_revoked)
qed

theorem chat_message_revalidates_witness:
  "receive accept_none all_sound 0 ''A'' (chat_frame ''hi'') (Some (JStr ''MEMBER-AB0C7F''))
     demo_gateway =
   Returns (Open, Some (JStr ''MEMBER-AB0C7F''),
     \<lparr>active_connections = [(''A'', 1), (''B'', 2), (''C'', 3)], lock_held = False,
      trace = [Validated (JStr ''MEMBER-AB0C7F''),
               Delivered 1 (JObj [(''type'', JStr ''chat_response''),
                                  (''payload'',
                                   JObj [(''error'', JStr ''Invalid authentication token'')])])]\<rparr>)"
proof -
  let ?msg = "envelope ''chat_message'' (JObj [(''content'', JStr ''hi'')])"
  have a: "py_get ?msg ''type'' JNull = Inr (JStr ''chat_message'')"
    and b: "py_get ?msg ''payload'' (JObj []) = Inr (JObj [(''content'', JStr ''hi'')])"
    and c: "py_get (JObj [(''content'', JStr ''hi'')]) ''content'' JNull = Inr (JStr ''hi'')"
    and d: "truthy (JStr ''hi'')" and e: "truthy (JStr ''MEMBER-AB0C7F'')"
    and f: "map_of (active_connections demo_gateway) ''A'' = Some 1" and g: "\<not> all_sound 1"
    and h: "accept_none (JStr ''MEMBER-AB0C7F'') = Inr None"
    by (simp_all add: envelope_def demo_gateway_def all_sound_def accept_none_def)
  from chat_message_revalidates [where broken = all_sound and v = accept_none and pick = 0
      and g = demo_gateway and client_id = "''A''" and ws = 1, OF a b c d e f g] h
  show ?thesis
    by (simp add: chat_frame_def demo_gateway_def)
qed

section \<open>Issued credentials\<close>

lemma digit_char_inj: "m < 10 \<Longrightarrow> n < 10 \<Longrightarrow> digit_char m = digit_char n \<Longrightarrow> m = n"
  unfolding digit_char_def by (subst (asm) nth_eq_iff_index_eq) simp_all

lemma digit_char_range: "n < 10 \<Longrightarrow> digit_char n \<in> set ''0123456789''"
  unfolding digit_char_def by (rule nth_mem) simp

lemma upper_hex: "n < 16 \<Longrightarrow> upper_char (hex_char n) = ''0123456789ABCDEF'' ! n"
proof -
  assume n: "n < 16"
  have "map upper_char ''0123456789abcdef'' = ''0123456789ABCDEF''"
    by (simp add: upper_char_def)
  moreover have "map upper_char ''0123456789abcdef'' ! n = upper_char (''0123456789abcdef'' ! n)"
    using n by (intro nth_map) simp
  ultimately show ?thesis by (simp add: hex_char_def)
qed

lemma upper_hex_inj:
  assumes "m < 16" and "n < 16" and "upper_char (hex_char m) = upper_char (hex_char n)"
  shows "m = n"
proof -
  from assms have "''0123456789ABCDEF'' ! m = ''0123456789ABCDEF'' ! n"
    by (simp add: upper_hex)
  with assms(1,2) show ?thesis
    by (subst (asm) nth_eq_iff_index_eq) simp_all
qed

lemma upper_hex_range: "n < 16 \<Longrightarrow> upper_char (hex_char n) \<in> set ''0123456789ABCDEF''"
  unfolding upper_hex by (rule nth_mem) simp

lemma str_nat_not_empty: "str_nat n \<noteq> []"
  by (subst str_nat.simps) simp

lemma str_nat_digits: "set (str_nat n) \<subseteq> set ''0123456789''"
proof (induction n rule: str_nat.induct)
  case (1 n)
  show ?case
  proof (cases "n < 10")
    case True
    then show ?thesis
      using digit_char_range [of n] by (subst str_nat.simps) simp
  next
    case False
    with "1.IH" digit_char_range [of "n mod 10"] show ?thesis
      by (subst str_nat.simps) simp
  qed
qed

lemma str_nat_inj: "str_nat m = str_nat n \<Longrightarrow> m = n"
proof (induction m arbitrary: n rule: str_nat.induct)
  case (1 m)
  show ?case
  proof (cases "m < 10")
    case small_m: True
    show ?thesis
    proof (cases "n < 10")
      case True
      with small_m "1.prems" show ?thesis
        by (simp add: str_nat.simps [of m] str_nat.simps [of n] digit_char_inj)
    next
      case False
      with small_m "1.prems" str_nat_not_empty [of "n div 10"] show ?thesis
        by (simp add: str_nat.simps [of m] str_nat.simps [of n] Cons_eq_append_conv)
    qed
  next
    case big_m: False
    show ?thesis
    proof (cases "n < 10")
      case True
      with big_m "1.prems" str_nat_not_empty [of "m div 10"] show ?thesis
        by (simp add: str_nat.simps [of m] str_nat.simps [of n] append_eq_Cons_conv)
    next
      case False
      with big_m "1.prems" have q: "str_nat (m div 10) = str_nat (n div 10)"
        and r: "digit_char (m mod 10) = digit_char (n mod 10)"
        by (simp_all add: str_nat.simps [of m] str_nat.simps [of n])
      from "1.IH" [OF big_m q] have "m div 10 = n div 10" .
      moreover from r have "m mod 10 = n mod 10"
        by (intro digit_char_inj) simp_all
      ultimately show ?thesis
        by (metis div_mult_mod_eq)
    qed
  qed
qed

lemma str_int_inj: "str_int i = str_int j \<Longrightarrow> i = j"
proof -
  assume eq: "str_int i = str_int j"
  have no_minus: "hd (str_nat n) \<noteq> CHR ''-''" for n
  proof -
    have "hd (str_nat n) \<in> set (str_nat n)"
      by (simp add: str_nat_not_empty)
    with str_nat_digits [of n] show ?thesis by auto
  qed
  show ?thesis
  proof (cases "i < 0")
    case neg_i: True
    show ?thesis
    proof (cases "j < 0")
      case True
      with neg_i eq have "str_nat (nat (- i)) = str_nat (nat (- j))"
        by (simp add: str_int_def)
      then have "nat (- i) = nat (- j)" by (rule str_nat_inj)
      with neg_i True show ?thesis by simp
    next
      case False
      with neg_i eq have "str_nat (nat j) = CHR ''-'' # str_nat (nat (- i))"
        by (simp add: str_int_def)
      with no_minus [of "nat j"] show ?thesis by simp
    qed
  next
    case pos_i: False
    show ?thesis
    proof (cases "j < 0")
      case True
      with pos_i eq have "str_nat (nat i) = CHR ''-'' # str_nat (nat (- j))"
        by (simp add: str_int_def)
      with no_minus [of "nat i"] show ?thesis by simp
    next
      case False
      with pos_i eq have "str_nat (nat i) = str_nat (nat j)"
        by (simp add: str_int_def)
      then have "nat i = nat j" by (rule str_nat_inj)
      with pos_i False show ?thesis by simp
    qed
  qed
qed


lemma upper_hex_byte:
  "upper (hex_byte b) =
     [upper_char (hex_char (unat b div 16)), upper_char (hex_char (unat b mod 16))]"
  by (simp add: upper_def hex_byte_def)

lemma upper_hex_byte_inj:
  fixes a b :: byte
  assumes "upper (hex_byte a) = upper (hex_byte b)"
  shows "a = b"
proof -
  have bound: "unat c div 16 < 16" for c :: byte
    using unsigned_less [of c, where 'a = nat] by simp
  from assms have hi: "upper_char (hex_char (unat a div 16)) = upper_char (hex_char (unat b div 16))"
    and lo: "upper_char (hex_char (unat a mod 16)) = upper_char (hex_char (unat b mod 16))"
    by (simp_all add: upper_hex_byte)
  from hi have "unat a div 16 = unat b div 16"
    by (intro upper_hex_inj bound)
  moreover from lo have "unat a mod 16 = unat b mod 16"
    by (intro upper_hex_inj) simp_all
  ultimately have "unat a = unat b"
    by (metis div_mult_mod_eq)
  then show ?thesis
    by (simp add: word_unat_eq_iff)
qed

lemma upper_token_hex:
  "upper (token_hex (b0, b1, b2)) =
     upper (hex_byte b0) @ upper (hex_byte b1) @ upper (hex_byte b2)"
  by (simp add: upper_def)

lemma upper_token_hex_inj:
  assumes "upper (token_hex s) = upper (token_hex t)"
  shows "s = t"
proof -
  obtain a0 a1 a2 where s: "s = (a0, a1, a2)" by (cases s) auto
  obtain b0 b1 b2 where t: "t = (b0, b1, b2)" by (cases t) auto
  have len: "length (upper (hex_byte c)) = 2" for c
    by (simp add: upper_hex_byte)
  from assms s t have "upper (hex_byte a0) = upper (hex_byte b0)
      \<and> upper (hex_byte a1) = upper (hex_byte b1) \<and> upper (hex_byte a2) = upper (hex_byte b2)"
    by (simp add: upper_def hex_byte_def)
  with s t show ?thesis
    by (simp add: upper_hex_byte_inj)
qed

lemma upper_token_hex_shape:
  "length (upper (token_hex t)) = 6 \<and> set (upper (token_hex t)) \<subseteq> set ''0123456789ABCDEF''"
proof -
  obtain b0 b1 b2 where t: "t = (b0, b1, b2)" by (cases t) auto
  have hi: "unat c div 16 < 16" and lo: "unat c mod 16 < 16" for c :: byte
    using unsigned_less [of c, where 'a = nat] by simp_all
  have "set (upper (hex_byte c)) \<subseteq> set ''0123456789ABCDEF''" for c
    using upper_hex_range [OF hi [of c]] upper_hex_range [OF lo [of c]]
    by (simp add: upper_hex_byte)
  then show ?thesis
    unfolding t upper_token_hex by (simp add: upper_hex_byte)
qed

lemma approve_success_credentials:
  assumes "approve_membership e request w = (Inr p, w')"
  shows "membership_code p = ''MEMBER-'' @ upper (token_hex (token_bytes e (draws w)))
       \<and> membership_key p = membership_code p @ ''-'' @ str_int (utcnow_timestamp e)"
  using assms
  unfolding approve_membership_def safe_get_from_supabase_def safe_post_to_supabase_def
  by (auto simp: Let_def split: if_splits list.splits)

text \<open>
  C5 as stated fails on uniqueness: two approvals that draw the same random bytes within
  the same second issue the same key to two invitations.
\<close>

theorem same_draw_same_second_same_key:
  "fst (approve_membership demo_env (demo_request ''ABC123'') (demo_world ''onboarded'')) =
     Inr \<lparr>success = True, message = ''Membership approved.'',
          membership_key = ''MEMBER-AB0C7F-1700000000'', membership_code = ''MEMBER-AB0C7F''\<rparr>
   \<and> fst (approve_membership demo_env (demo_request ''XYZ789'')
        (snd (approve_membership demo_env (demo_request ''ABC123'') (demo_world ''onboarded'')))) =
     Inr \<lparr>success = True, message = ''Membership approved.'',
          membership_key = ''MEMBER-AB0C7F-1700000000'', membership_code = ''MEMBER-AB0C7F''\<rparr>"
proof -
  have "fst (approve_membership demo_env (demo_request ''XYZ789'')
        (snd (approve_membership demo_env (demo_request ''ABC123'') (demo_world ''onboarded'')))) =
     Inr \<lparr>success = True, message = ''Membership approved.'',
          membership_key = ''MEMBER-AB0C7F-1700000000'', membership_code = ''MEMBER-AB0C7F''\<rparr>"
    unfolding demo_approve snd_conv
    by (simp add: approve_membership_def demo_env_def demo_request_def demo_world_def
        demo_invitation_def safe_get_from_supabase_def safe_post_to_supabase_def matching_def
        column_def str_int_demo token_demo Let_def del: token_hex.simps)
  then show ?thesis
    by (simp add: demo_approve)
qed

text \<open>
  C5, amended. A successful approval returns the code \<open>MEMBER-\<close> followed by six
  upper-case hexadecimal digits, and the key made of the code, a hyphen and the decimal
  timestamp. Two successful approvals return the same key exactly when they drew the
  same three random bytes and read the same timestamp.
\<close>

theorem issued_credentials:
  assumes "approve_membership e1 request1 w1 = (Inr p1, w1')"
    and "approve_membership e2 request2 w2 = (Inr p2, w2')"
  shows "membership_key p1 = membership_code p1 @ ''-'' @ str_int (utcnow_timestamp e1)
       \<and> (\<exists>h. membership_code p1 = ''MEMBER-'' @ h \<and> length h = 6
              \<and> set h \<subseteq> set ''0123456789ABCDEF'')
       \<and> (membership_key p1 = membership_key p2 \<longleftrightarrow>
            token_bytes e1 (draws w1) = token_bytes e2 (draws w2)
            \<and> utcnow_timestamp e1 = utcnow_timestamp e2)"
proof -
  let ?h1 = "upper (token_hex (token_bytes e1 (draws w1)))"
  let ?h2 = "upper (token_hex (token_bytes e2 (draws w2)))"
  from approve_success_credentials [OF assms(1)]
  have c1: "membership_code p1 = ''MEMBER-'' @ ?h1"
    and k1: "membership_key p1 = membership_code p1 @ ''-'' @ str_int (utcnow_timestamp e1)"
    by simp_all
  from approve_success_credentials [OF assms(2)]
  have c2: "membership_code p2 = ''MEMBER-'' @ ?h2"
    and k2: "membership_key p2 = membership_code p2 @ ''-'' @ str_int (utcnow_timestamp e2)"
    by simp_all
  have len: "length ?h1 = length ?h2"
    by (simp add: upper_token_hex_shape)
  have "membership_key p1 = membership_key p2 \<longleftrightarrow>
      ?h1 = ?h2 \<and> str_int (utcnow_timestamp e1) = str_int (utcnow_timestamp e2)"
    using len by (simp add: k1 k2 c1 c2)
  also have "\<dots> \<longleftrightarrow> token_bytes e1 (draws w1) = token_bytes e2 (draws w2)
      \<and> utcnow_timestamp e1 = utcnow_timestamp e2"
    by (auto dest: upper_token_hex_inj str_int_inj)
  finally have same: "membership_key p1 = membership_key p2 \<longleftrightarrow>
      token_bytes e1 (draws w1) = token_bytes e2 (draws w2)
      \<and> utcnow_timestamp e1 = utcnow_timestamp e2" .
  from c1 have "\<exists>h. membership_code p1 = ''MEMBER-'' @ h \<and> length h = 6
      \<and> set h \<subseteq> set ''0123456789ABCDEF''"
    using upper_token_hex_shape [of "token_bytes e1 (draws w1)"] by blast
  with k1 same show ?thesis by blast
qed


theorem issued_credentials_witness:
  "\<exists>p1 w1' p2 w2'.
     approve_membership demo_env (demo_request ''ABC123'') (demo_world ''onboarded'') = (Inr p1, w1')
     \<and> approve_membership (demo_env\<lparr>utcnow_timestamp := 1700000001\<rparr>) (demo_request ''XYZ789'') w1'
         = (Inr p2, w2')
     \<and> membership_key p1 = ''MEMBER-AB0C7F-1700000000''
     \<and> membership_key p1 \<noteq> membership_key p2"
proof -
  let ?later = "demo_env\<lparr>utcnow_timestamp := 1700000001\<rparr>"
  obtain p1 w1' where first:
    "approve_membership demo_env (demo_request ''ABC123'') (demo_world ''onboarded'') = (Inr p1, w1')"
    and key1: "membership_key p1 = ''MEMBER-AB0C7F-1700000000''"
    using demo_approve by simp
  have later: "str_int 1700000001 = ''1700000001''"
    by (simp add: str_int_def str_nat.simps digit_char_def)
  have "\<exists>p2. fst (approve_membership ?later (demo_request ''XYZ789'') w1') = Inr p2"
    using first unfolding demo_approve
    by (auto simp: approve_membership_def demo_env_def demo_request_def demo_world_def
        demo_invitation_def safe_get_from_supabase_def safe_post_to_supabase_def matching_def
        column_def later token_demo Let_def simp del: token_hex.simps)
  then obtain p2 w2' where second:
    "approve_membership ?later (demo_request ''XYZ789'') w1' = (Inr p2, w2')"
    by (metis prod.collapse)
  have "utcnow_timestamp demo_env \<noteq> utcnow_timestamp ?later"
    by (simp add: demo_env_def)
  with issued_credentials [OF first second] have "membership_key p1 \<noteq> membership_key p2"
    by blast
  with first second key1 show ?thesis by blast
qed

end
